theory Spec2Isabelle
  imports Main "HOL-Library.Word" "HOL-Library.Sublist"
begin

section \<open>tcpf: a TCP port forwarder (src/tcpf.go)\<close>

text \<open>
  The program accepts connections on a local port, dials a fixed destination for each
  of them and relays bytes both ways with four goroutines per tunnel. The embedding has
  two layers. The first is the relay of one direction: the functions \<open>readFromConn\<close> and
  \<open>writeToConn\<close> joined by an unbuffered channel, as a step function over the actions of
  the two goroutines. The second is the realm: the package variable \<open>id\<close>, the registry
  \<open>realm.tunnels\<close>, the connections and the log, as a step function over the actions of
  the accept loop, the realm's listener goroutine and the pump goroutines. What the
  operating system and the peers do (the result of Accept, Dial, Read, Write) is an
  argument of the action that receives it.
\<close>

subsection \<open>Values\<close>



text \<open>An established connection. A \<open>net.Conn\<close> interface value is a \<open>conn option\<close>,
  \<open>None\<close> being the nil interface.\<close>

type_synonym conn = nat

text \<open>Errors: \<open>io.EOF\<close>, and every other error with its message.\<close>

datatype error = EOF | NetError string


subsection \<open>strconv.Itoa\<close>

text \<open>The decimal representation of Go's standard library: a minus sign for a negative
  number, then the digits, most significant first, without leading zeros.\<close>

definition digit_char :: "nat \<Rightarrow> char" where
  "digit_char d = char_of (48 + d)"

fun dec :: "nat \<Rightarrow> string" where
  "dec n = (if n < 10 then [digit_char n] else dec (n div 10) @ [digit_char (n mod 10)])"

declare dec.simps [simp del]

definition Itoa :: "int \<Rightarrow> string" where
  "Itoa i = (if i < 0 then CHR ''-'' # dec (nat (- i)) else dec (nat i))"

text \<open>Reading the digits back, for the proof that \<open>Itoa\<close> is injective.\<close>

definition digit_val :: "char \<Rightarrow> nat" where
  "digit_val c = of_char c - 48"

definition undec :: "string \<Rightarrow> nat" where
  "undec s = foldl (\<lambda>a c. 10 * a + digit_val c) 0 s"

subsection \<open>The relay of one direction\<close>

















subsection \<open>The realm\<close>

record TCPTunnel =
  tunnel_id :: string
  inbound :: "conn option"
  outbound :: conn

text \<open>The tunnel's two channels are the handoffs of its two relays, and its pointer to
  the realm is the one realm of the state below.\<close>

record TunnelRealm =
  bindIF :: string
  bindPort :: string
  dstHost :: string
  dstPort :: string
  tunnels :: "string \<rightharpoonup> TCPTunnel"
  joining :: "conn option option"

text \<open>The field \<open>joining\<close> is the unbuffered channel: \<open>Some c\<close> while the accept loop is
  blocked in the send of \<open>c\<close>.\<close>

text \<open>The four goroutines of a tunnel, in the order \<open>tunnel.listen\<close> starts them.\<close>

datatype pump = ReadInbound | WriteOutbound | ReadOutbound | WriteInbound

datatype goroutine = MainLoop | RealmListener | Pump string pump

datatype map_write = Insert string | Delete string

datatype proc = Running | Exited int | Panicked

datatype log_line =
    ErrorOccured error
  | DestinationUnavailable string error
  | AddedTunnel string TCPTunnel
  | RealmHas "string \<rightharpoonup> TCPTunnel"
  | TunnelLeaving TCPTunnel
  | ConnectionClosed TCPTunnel

text \<open>
  The state of the process: the package variable \<open>id\<close> (Go's \<open>int\<close>, 64 bits wide on the
  usual platforms), the realm, the number of calls of \<open>Close\<close> each connection has
  received, the log and whether the process still runs. Then what the goroutines hold:
  the listener's local variable \<open>tunnel\<close> between the return of \<open>newTCPTunnel\<close> and the
  store into the map, and the pump goroutines that have been started and have not
  returned. Last, two records of what has happened: the goroutine that executes the
  current action, and the writes of the map with the goroutine that executed each.
\<close>

record world =
  id_var :: "64 word"
  realm :: TunnelRealm
  closes :: "conn \<Rightarrow> nat"
  logs :: "log_line list"
  proc :: proc
  joined :: "TCPTunnel option"
  pumps :: "(TCPTunnel \<times> pump) list"
  cur :: goroutine
  map_writes :: "(goroutine \<times> map_write) list"

definition is_closed :: "world \<Rightarrow> conn \<Rightarrow> bool" where
  "is_closed w c = (0 < closes w c)"

definition log_Printf :: "log_line \<Rightarrow> world \<Rightarrow> world" where
  "log_Printf l w = w\<lparr>logs := logs w @ [l]\<rparr>"

definition conn_Close :: "conn \<Rightarrow> world \<Rightarrow> world" where
  "conn_Close c w = w\<lparr>closes := (closes w)(c := Suc (closes w c))\<rparr>"

definition map_store :: "string \<Rightarrow> TCPTunnel \<Rightarrow> world \<Rightarrow> world" where
  "map_store k t w =
     w\<lparr>realm := (realm w)\<lparr>tunnels := (tunnels (realm w))(k \<mapsto> t)\<rparr>,
       map_writes := map_writes w @ [(cur w, Insert k)]\<rparr>"

definition map_delete :: "string \<Rightarrow> world \<Rightarrow> world" where
  "map_delete k w =
     w\<lparr>realm := (realm w)\<lparr>tunnels := (tunnels (realm w))(k := None)\<rparr>,
       map_writes := map_writes w @ [(cur w, Delete k)]\<rparr>"

definition NewTunnelRealm :: "string \<Rightarrow> string \<Rightarrow> string \<Rightarrow> string \<Rightarrow> TunnelRealm" where
  "NewTunnelRealm bif bport dhost dport =
     \<lparr>bindIF = bif, bindPort = bport, dstHost = dhost, dstPort = dport,
      tunnels = Map.empty, joining = None\<rparr>"

definition listTunnels :: "world \<Rightarrow> world" where
  "listTunnels w = log_Printf (RealmHas (tunnels (realm w))) w"

definition generateID :: "world \<Rightarrow> string \<times> world" where
  "generateID w = (Itoa (sint (id_var w + 1)), w\<lparr>id_var := id_var w + 1\<rparr>)"

text \<open>\<open>tunnel.listen\<close> starts the four pumps.\<close>

definition tunnel_listen :: "TCPTunnel \<Rightarrow> world \<Rightarrow> world" where
  "tunnel_listen t w =
     w\<lparr>pumps := pumps w @ [(t, ReadInbound), (t, WriteOutbound), (t, ReadOutbound), (t, WriteInbound)]\<rparr>"

text \<open>\<open>newTCPTunnel\<close>: \<open>dial\<close> is what \<open>net.Dial("tcp", _)\<close> answers at this moment. After
  \<open>os.Exit(1)\<close> there is no tunnel.\<close>

definition newTCPTunnel ::
  "(string \<Rightarrow> error + conn) \<Rightarrow> conn option \<Rightarrow> world \<Rightarrow> TCPTunnel option \<times> world" where
  "newTCPTunnel dial c w =
     (let address = dstHost (realm w) @ '':'' @ dstPort (realm w)
      in case dial address of
           Inl err \<Rightarrow>
             (None, (log_Printf (DestinationUnavailable address err) w)\<lparr>proc := Exited 1\<rparr>)
         | Inr out \<Rightarrow>
             (case generateID w of
                (i, w1) \<Rightarrow>
                  (let tunnel = \<lparr>tunnel_id = i, inbound = c, outbound = out\<rparr>
                   in (Some tunnel, tunnel_listen tunnel w1))))"

text \<open>\<open>join\<close> after the return of \<open>newTCPTunnel\<close> (lines 67 to 70), and the whole of it.\<close>

definition join_store :: "TCPTunnel \<Rightarrow> world \<Rightarrow> world" where
  "join_store tunnel w =
     listTunnels (log_Printf (AddedTunnel (tunnel_id tunnel) tunnel)
       (map_store (tunnel_id tunnel) tunnel w))"

definition join :: "(string \<Rightarrow> error + conn) \<Rightarrow> conn option \<Rightarrow> world \<Rightarrow> world" where
  "join dial c w =
     (case newTCPTunnel dial c w of
        (None, w') \<Rightarrow> w'
      | (Some tunnel, w') \<Rightarrow> join_store tunnel w')"

text \<open>\<open>leave\<close>: the log line, the delete, and the two calls of \<open>Close\<close>; the call on a nil
  inbound connection panics.\<close>

definition leave :: "TCPTunnel \<Rightarrow> world \<Rightarrow> world" where
  "leave tunnel w =
     (let w1 = map_delete (tunnel_id tunnel) (log_Printf (TunnelLeaving tunnel) w)
      in case inbound tunnel of
           None \<Rightarrow> w1\<lparr>proc := Panicked\<rparr>
         | Some c \<Rightarrow> listTunnels (conn_Close (outbound tunnel) (conn_Close c w1)))"

definition closeTunnel :: "TCPTunnel \<Rightarrow> world \<Rightarrow> world" where
  "closeTunnel tunnel w = leave tunnel (log_Printf (ConnectionClosed tunnel) w)"

text \<open>The four pump goroutines, from the moment their loop has returned \<open>err\<close>.\<close>

definition readFromInbound :: "error \<Rightarrow> TCPTunnel \<Rightarrow> world \<Rightarrow> world" where
  "readFromInbound err tunnel w =
     closeTunnel tunnel (if err \<noteq> EOF then log_Printf (ErrorOccured err) w else w)"

definition readFromOutbound :: "error \<Rightarrow> TCPTunnel \<Rightarrow> world \<Rightarrow> world" where
  "readFromOutbound err tunnel w =
     closeTunnel tunnel (if err \<noteq> EOF then log_Printf (ErrorOccured err) w else w)"

definition writeToInbound :: "error \<Rightarrow> TCPTunnel \<Rightarrow> world \<Rightarrow> world" where
  "writeToInbound err tunnel w =
     closeTunnel tunnel (if err \<noteq> EOF then log_Printf (ErrorOccured err) w else w)"

definition writeToOutbound :: "error \<Rightarrow> TCPTunnel \<Rightarrow> world \<Rightarrow> world" where
  "writeToOutbound err tunnel w =
     closeTunnel tunnel (if err \<noteq> EOF then log_Printf (ErrorOccured err) w else w)"

text \<open>The connection a pump calls \<open>Read\<close> or \<open>Write\<close> on.\<close>

fun pump_conn :: "pump \<Rightarrow> TCPTunnel \<Rightarrow> conn option" where
  "pump_conn ReadInbound t = inbound t"
| "pump_conn WriteInbound t = inbound t"
| "pump_conn ReadOutbound t = Some (outbound t)"
| "pump_conn WriteOutbound t = Some (outbound t)"

text \<open>A pump calls \<open>Read\<close> or \<open>Write\<close> on its connection. On a nil connection the call
  panics, and an unrecovered panic ends the process. On an established connection the
  call fails with \<open>err\<close>, the loop returns the error and the goroutine runs to its end.
  (The calls that succeed move bytes and leave this state as it is.)\<close>

definition pump_call :: "pump \<Rightarrow> error \<Rightarrow> TCPTunnel \<Rightarrow> world \<Rightarrow> world" where
  "pump_call p err tunnel w =
     (case pump_conn p tunnel of
        None \<Rightarrow> w\<lparr>proc := Panicked\<rparr>
      | Some c \<Rightarrow>
          (case p of
             ReadInbound \<Rightarrow> readFromInbound err tunnel w
           | WriteOutbound \<Rightarrow> writeToOutbound err tunnel w
           | ReadOutbound \<Rightarrow> readFromOutbound err tunnel w
           | WriteInbound \<Rightarrow> writeToInbound err tunnel w))"

text \<open>One iteration of the accept loop of \<open>main\<close> (lines 198 to 202), up to the point
  where it is blocked in the send: \<open>Accept\<close> has returned the pair \<open>(conn, err)\<close>.\<close>

definition accept_iteration :: "conn option \<times> error option \<Rightarrow> world \<Rightarrow> world" where
  "accept_iteration r w =
     (let w1 = (case snd r of Some err \<Rightarrow> log_Printf (ErrorOccured err) w | None \<Rightarrow> w)
      in w1\<lparr>realm := (realm w1)\<lparr>joining := Some (fst r)\<rparr>\<rparr>)"

text \<open>
  The actions of the goroutines. \<open>Accept r\<close>: the accept loop, when it is not blocked in
  the send. \<open>Receive dial\<close>: the listener takes the connection from the channel and runs
  \<open>join\<close> up to the return of \<open>newTCPTunnel\<close>. \<open>Store\<close>: the listener runs the rest of
  \<open>join\<close>. \<open>PumpCall i p err\<close>: the pump \<open>p\<close> of the tunnel \<open>i\<close>, in the call that ends
  it. A process that has exited or panicked takes no action.
\<close>

datatype event =
    Accept "conn option \<times> error option"
  | Receive "string \<Rightarrow> error + conn"
  | Store
  | PumpCall string pump error

definition step :: "event \<Rightarrow> world \<Rightarrow> world option" where
  "step ev w =
     (if proc w \<noteq> Running then None
      else case ev of
        Accept r \<Rightarrow>
          (case joining (realm w) of
             None \<Rightarrow> Some (accept_iteration r (w\<lparr>cur := MainLoop\<rparr>))
           | Some c \<Rightarrow> None)
      | Receive dial \<Rightarrow>
          (case joining (realm w) of
             None \<Rightarrow> None
           | Some c \<Rightarrow>
               (case joined w of
                  Some t \<Rightarrow> None
                | None \<Rightarrow>
                    (case newTCPTunnel dial c
                            (w\<lparr>cur := RealmListener, realm := (realm w)\<lparr>joining := None\<rparr>\<rparr>) of
                       (t, w') \<Rightarrow> Some (w'\<lparr>joined := t\<rparr>))))
      | Store \<Rightarrow>
          (case joined w of
             None \<Rightarrow> None
           | Some t \<Rightarrow> Some (join_store t (w\<lparr>cur := RealmListener, joined := None\<rparr>)))
      | PumpCall i p err \<Rightarrow>
          (case find (\<lambda>tp. tunnel_id (fst tp) = i \<and> snd tp = p) (pumps w) of
             None \<Rightarrow> None
           | Some tp \<Rightarrow>
               Some (pump_call p err (fst tp)
                       (w\<lparr>cur := Pump i p, pumps := remove1 tp (pumps w)\<rparr>))))"

fun run :: "event list \<Rightarrow> world \<Rightarrow> world option" where
  "run [] w = Some w"
| "run (e # es) w = (case step e w of None \<Rightarrow> None | Some w' \<Rightarrow> run es w')"

text \<open>The process after \<open>main\<close> has made the realm, before the first \<open>Accept\<close>.\<close>

definition start :: "string \<Rightarrow> string \<Rightarrow> string \<Rightarrow> world" where
  "start bport rhost rport =
     \<lparr>id_var = 0, realm = NewTunnelRealm [] bport rhost rport, closes = (\<lambda>c. 0), logs = [],
      proc = Running, joined = None, pumps = [], cur = MainLoop, map_writes = []\<rparr>"

text \<open>What is seen of a state: the calls of \<open>Close\<close> a connection has received, the
  registry's entry under an identity, and the number of log lines.\<close>

definition close_calls :: "conn \<Rightarrow> world \<Rightarrow> nat" where
  "close_calls c w = closes w c"

definition registered :: "string \<Rightarrow> world \<Rightarrow> TCPTunnel option" where
  "registered i w = tunnels (realm w) i"

definition log_lines :: "world \<Rightarrow> nat" where
  "log_lines w = length (logs w)"

text \<open>The pumps of one tunnel return one after the other, each with its error.\<close>

fun terminations :: "(pump \<times> error) list \<Rightarrow> TCPTunnel \<Rightarrow> world \<Rightarrow> world" where
  "terminations [] t w = w"
| "terminations (pe # pes) t w = terminations pes t (pump_call (fst pe) (snd pe) t w)"

text \<open>A destination that answers every dial with the connection \<open>c\<close>, and one that
  refuses.\<close>

definition dial_to :: "conn \<Rightarrow> string \<Rightarrow> error + conn" where
  "dial_to c address = Inr c"

definition dial_refused :: "string \<Rightarrow> error + conn" where
  "dial_refused address = Inl (NetError ''connection refused'')"

text \<open>The process of \<open>tcpf 9000 example 7\<close>; the same after the admission of the
  connection 7, with the connection 8 to the destination; and the tunnel of the two.\<close>

definition tcpf :: world where
  "tcpf = start ''9000'' ''example'' ''7''"

definition admitted :: world where
  "admitted = join (dial_to 8) (Some 7) (tcpf\<lparr>cur := RealmListener\<rparr>)"

definition tunnel1 :: TCPTunnel where
  "tunnel1 = \<lparr>tunnel_id = ''1'', inbound = Some 7, outbound = 8\<rparr>"

text \<open>The identities of \<open>n\<close> tunnels made one after the other.\<close>

fun generateIDs :: "nat \<Rightarrow> world \<Rightarrow> string list" where
  "generateIDs 0 w = []"
| "generateIDs (Suc n) w = (case generateID w of (i, w') \<Rightarrow> i # generateIDs n w')"

section \<open>Properties\<close>

lemmas world_defs = step_def accept_iteration_def newTCPTunnel_def generateID_def
  tunnel_listen_def join_store_def join_def leave_def closeTunnel_def pump_call_def
  readFromInbound_def readFromOutbound_def writeToInbound_def writeToOutbound_def
  log_Printf_def conn_Close_def map_store_def map_delete_def listTunnels_def

lemmas fixture_defs = tcpf_def start_def NewTunnelRealm_def dial_to_def dial_refused_def
  close_calls_def registered_def log_lines_def

subsection \<open>Identities\<close>

lemma digit_val_digit_char: "d < 10 \<Longrightarrow> digit_val (digit_char d) = d"
  by (simp add: digit_val_def digit_char_def)

lemma undec_snoc: "undec (s @ [c]) = 10 * undec s + digit_val c"
  by (simp add: undec_def)

lemma undec_dec: "undec (dec n) = n"
proof (induction n rule: dec.induct)
  case (1 n)
  show ?case
  proof (cases "n < 10")
    case True
    then show ?thesis by (simp add: dec.simps [of n] undec_def digit_val_digit_char)
  next
    case False
    with 1 show ?thesis
      by (simp add: dec.simps [of n] undec_snoc digit_val_digit_char)
  qed
qed

lemma dec_inj: "dec m = dec n \<Longrightarrow> m = n"
  by (metis undec_dec)

lemma dec_nonempty: "dec n \<noteq> []"
  by (simp add: dec.simps [of n])

lemma digit_char_not_minus: "d < 10 \<Longrightarrow> digit_char d \<noteq> CHR ''-''"
proof
  assume "d < 10" and "digit_char d = CHR ''-''"
  then have "(of_char (digit_char d) :: nat) = of_char CHR ''-''" by simp
  with \<open>d < 10\<close> show False by (simp add: digit_char_def)
qed

lemma hd_dec_not_minus: "hd (dec n) \<noteq> CHR ''-''"
proof (induction n rule: dec.induct)
  case (1 n)
  show ?case
  proof (cases "n < 10")
    case True
    then show ?thesis by (simp add: dec.simps [of n] digit_char_not_minus)
  next
    case False
    with 1 show ?thesis
      by (simp add: dec.simps [of n] dec_nonempty)
  qed
qed

lemma Itoa_inj: "Itoa i = Itoa j \<Longrightarrow> i = j"
proof -
  assume h: "Itoa i = Itoa j"
  have neg: "\<And>a b. dec a \<noteq> CHR ''-'' # dec b"
    using hd_dec_not_minus by (metis list.sel(1))
  show ?thesis
  proof (cases "i < 0"; cases "j < 0")
    assume "i < 0" "j < 0"
    with h have "dec (nat (- i)) = dec (nat (- j))" by (simp add: Itoa_def)
    then have "nat (- i) = nat (- j)" by (rule dec_inj)
    with \<open>i < 0\<close> \<open>j < 0\<close> show ?thesis by simp
  next
    assume "i < 0" "\<not> j < 0"
    with h neg show ?thesis by (simp add: Itoa_def) metis
  next
    assume "\<not> i < 0" "j < 0"
    with h neg show ?thesis by (simp add: Itoa_def)
  next
    assume "\<not> i < 0" "\<not> j < 0"
    with h have "dec (nat i) = dec (nat j)" by (simp add: Itoa_def)
    then have "nat i = nat j" by (rule dec_inj)
    with \<open>\<not> i < 0\<close> \<open>\<not> j < 0\<close> show ?thesis by simp
  qed
qed

lemma generateIDs_closed:
  "generateIDs n w = map (\<lambda>k. Itoa (sint (id_var w + of_nat k))) [1..<Suc n]"
proof (induction n arbitrary: w)
  case 0
  show ?case by simp
next
  case (Suc n)
  have "map (\<lambda>k. Itoa (sint (id_var w + 1 + of_nat k))) [1..<Suc n]
      = map (\<lambda>k. Itoa (sint (id_var w + of_nat k))) [Suc 1..<Suc (Suc n)]"
    by (simp only: map_Suc_upt [symmetric] list.map_comp) (simp add: comp_def add.assoc)
  then show ?case
    using Suc [of "w\<lparr>id_var := id_var w + 1\<rparr>"]
    by (simp add: generateID_def upt_conv_Cons del: upt_Suc)
qed

lemma sint_of_nat_small: "n < 2 ^ 63 \<Longrightarrow> sint (of_nat n :: 64 word) = int n"
proof -
  assume "n < 2 ^ 63"
  then have "int n < 2 ^ 63" by (metis of_nat_less_numeral_power_cancel_iff)
  then have "signed_take_bit 63 (int n) = int n"
    by (intro signed_take_bit_int_eq_self) simp_all
  then show ?thesis by (simp add: signed_of_nat)
qed

text \<open>
  Claim C5, as amended. The counter is a 64-bit \<open>int\<close> that starts at 0 and that only
  \<open>generateID\<close> writes, adding one. As long as fewer than \<open>2 ^ 63\<close> identities have been
  allocated, the identities are pairwise distinct: the k-th one is the decimal string of
  \<open>k\<close>, so they follow a strictly increasing counter that is never reset.
\<close>

theorem generateID_distinct_below_wrap:
  "id_var w = 0 \<and> n < 2 ^ 63 \<Longrightarrow>
     generateIDs n w = map (\<lambda>k. Itoa (int k)) [1..<Suc n] \<and> distinct (generateIDs n w) \<and>
     id_var (snd (generateID w)) = id_var w + 1"
proof -
  assume h: "id_var w = 0 \<and> n < 2 ^ 63"
  have eq: "generateIDs n w = map (\<lambda>k. Itoa (int k)) [1..<Suc n]"
    unfolding generateIDs_closed
  proof (rule map_cong [OF refl])
    fix k assume "k \<in> set [1..<Suc n]"
    then have "k \<le> n" by auto
    with h have "k < 2 ^ 63" by linarith
    with h show "Itoa (sint (id_var w + of_nat k)) = Itoa (int k)"
      by (simp add: sint_of_nat_small)
  qed
  have "inj_on (\<lambda>k. Itoa (int k)) (set [1..<Suc n])"
    by (rule inj_onI) (auto dest: Itoa_inj)
  then have "distinct (map (\<lambda>k. Itoa (int k)) [1..<Suc n])"
    by (simp add: distinct_map)
  with eq show ?thesis by (simp add: generateID_def)
qed

text \<open>Claim C5, the amended statement at three allocations of the process
  \<open>tcpf 9000 example 7\<close>: the identities are 1, 2 and 3.\<close>

theorem generateID_distinct_below_wrap_witness:
  "generateIDs 3 tcpf = [''1'', ''2'', ''3''] \<and> distinct (generateIDs 3 tcpf)"
proof -
  have i: "Itoa 1 = ''1''" "Itoa 2 = ''2''" "Itoa 3 = ''3''"
    by code_simp+
  have "id_var tcpf = 0 \<and> (3::nat) < 2 ^ 63"
    by (simp add: tcpf_def start_def)
  from generateID_distinct_below_wrap [OF this] i show ?thesis
    by (simp add: upt_conv_Cons del: upt_Suc)
qed

lemma Itoa_min: "Itoa (- 9223372036854775808) = ''-9223372036854775808''"
  by (simp add: Itoa_def dec.simps digit_char_def) code_simp

lemma sint_wrap: "sint (of_nat (2 ^ 63) :: 64 word) = - 9223372036854775808"
  by simp

lemma generateIDs_negative:
  "generateIDs (2 ^ 63) tcpf ! (2 ^ 63 - 1) = ''-9223372036854775808''"
proof -
  let ?f = "\<lambda>k. Itoa (sint (id_var tcpf + of_nat k))"
  let ?xs = "[1..<Suc (2 ^ 63)]"
  have "(2::nat) ^ 63 - 1 < length ?xs" by (simp only: length_upt) simp
  then have "map ?f ?xs ! (2 ^ 63 - 1) = ?f (?xs ! (2 ^ 63 - 1))"
    by (rule nth_map)
  moreover have "?xs ! (2 ^ 63 - 1) = 2 ^ 63"
    by (subst nth_upt) simp_all
  moreover have "id_var tcpf = 0" by (simp add: tcpf_def start_def)
  ultimately have "map ?f ?xs ! (2 ^ 63 - 1) = Itoa (- 9223372036854775808)"
    by (simp only: sint_wrap add_0)
  then show ?thesis
    by (simp only: generateIDs_closed Itoa_min)
qed

lemma generateIDs_repeat: "\<not> distinct (generateIDs (2 ^ 64 + 1) tcpf)"
proof -
  let ?f = "\<lambda>k. Itoa (sint (id_var tcpf + of_nat k))"
  let ?xs = "[1..<Suc (2 ^ 64 + 1)]"
  have len: "length (map ?f ?xs) = 2 ^ 64 + 1" by simp
  have a: "map ?f ?xs ! 0 = ?f 1"
    by (simp only: nth_map length_upt nth_upt) simp
  have b: "map ?f ?xs ! (2 ^ 64) = ?f (2 ^ 64 + 1)"
    by (subst nth_map) (simp_all only: length_upt nth_upt, simp_all)
  have "?f (2 ^ 64 + 1) = ?f 1"
    by (simp add: tcpf_def start_def)
  with a b have same: "map ?f ?xs ! 0 = map ?f ?xs ! (2 ^ 64)" by simp
  show ?thesis
  proof
    assume "distinct (generateIDs (2 ^ 64 + 1) tcpf)"
    then have d: "distinct (map ?f ?xs)" by (simp only: generateIDs_closed)
    have l: "0 < length (map ?f ?xs)" "2 ^ 64 < length (map ?f ?xs)"
      by (simp_all only: len)
    have "(0::nat) \<noteq> 2 ^ 64" by simp
    with nth_eq_iff_index_eq [OF d l] same show False by blast
  qed
qed

text \<open>
  Claim C5 as stated (for any number of admissions the identities are pairwise distinct
  and follow an increasing counter that is never reused) fails where the counter wraps
  around. The identity number \<open>2 ^ 63\<close> is made from the counter fallen to the least
  \<open>int\<close>, and among \<open>2 ^ 64 + 1\<close> identities allocated one after the other the last one
  is the first one again.
\<close>

theorem generateID_reuse_after_wrap:
  "generateIDs (2 ^ 63) tcpf ! (2 ^ 63 - 1) = ''-9223372036854775808'' \<and>
   \<not> distinct (generateIDs (2 ^ 64 + 1) tcpf)"
  using generateIDs_negative generateIDs_repeat by (rule conjI)

subsection \<open>The dial\<close>

text \<open>
  Claim C3. Whatever the inbound connection, if the dial of the realm's destination
  \<open>dstHost:dstPort\<close> fails, \<open>newTCPTunnel\<close> makes no tunnel and \<open>join\<close> ends with the
  process exited with status 1, after one log line: no identity is allocated, the
  registry is unchanged, no pump is started, and no goroutine takes a further action
  (the dial is not tried again, nor is another destination).
\<close>

theorem newTCPTunnel_dial_failure_exits:
  "dial (dstHost (realm w) @ '':'' @ dstPort (realm w)) = Inl e \<Longrightarrow>
     fst (newTCPTunnel dial c w) = None \<and>
     proc (join dial c w) = Exited 1 \<and>
     logs (join dial c w) =
       logs w @ [DestinationUnavailable (dstHost (realm w) @ '':'' @ dstPort (realm w)) e] \<and>
     id_var (join dial c w) = id_var w \<and>
     tunnels (realm (join dial c w)) = tunnels (realm w) \<and>
     pumps (join dial c w) = pumps w \<and>
     (\<forall>ev. step ev (join dial c w) = None)"
  by (simp add: newTCPTunnel_def join_def log_Printf_def step_def)

text \<open>Claim C3 at a destination that refuses, for the connection 7 of the process
  \<open>tcpf 9000 example 7\<close>.\<close>

theorem newTCPTunnel_dial_failure_exits_witness:
  "proc (join dial_refused (Some 7) tcpf) = Exited 1 \<and>
   registered ''1'' (join dial_refused (Some 7) tcpf) = None \<and>
   step (Accept (Some 9, None)) (join dial_refused (Some 7) tcpf) = None \<and>
   step (Receive (dial_to 8)) (join dial_refused (Some 7) tcpf) = None"
proof -
  have "dial_refused (dstHost (realm tcpf) @ '':'' @ dstPort (realm tcpf))
          = Inl (NetError ''connection refused'')"
    by (simp add: dial_refused_def)
  from newTCPTunnel_dial_failure_exits
         [where dial = dial_refused and w = tcpf and c = "Some 7", OF this]
  have "proc (join dial_refused (Some 7) tcpf) = Exited 1"
    and "tunnels (realm (join dial_refused (Some 7) tcpf)) = tunnels (realm tcpf)"
    and "\<forall>ev. step ev (join dial_refused (Some 7) tcpf) = None"
    by blast+
  moreover have "tunnels (realm tcpf) ''1'' = None"
    by (simp add: tcpf_def start_def NewTunnelRealm_def)
  ultimately show ?thesis
    by (simp add: registered_def)
qed

subsection \<open>The reader pump\<close>



subsection \<open>The order of the chunks\<close>







subsection \<open>Teardown\<close>

lemma closeTunnel_effect:
  assumes "inbound t = Some ci"
  shows "tunnels (realm (closeTunnel t w)) = (tunnels (realm w))(tunnel_id t := None)"
    and "is_closed (closeTunnel t w) c = (is_closed w c \<or> c = ci \<or> c = outbound t)"
    and "proc (closeTunnel t w) = proc w"
    and "closes w c \<le> closes (closeTunnel t w) c"
    and "closes w ci < closes (closeTunnel t w) ci"
    and "closes w (outbound t) < closes (closeTunnel t w) (outbound t)"
    and "logs (closeTunnel t w) =
           logs w @ [ConnectionClosed t, TunnelLeaving t,
                     RealmHas ((tunnels (realm w))(tunnel_id t := None))]"
  using assms
  by (auto simp: closeTunnel_def leave_def Let_def log_Printf_def map_delete_def conn_Close_def
        listTunnels_def is_closed_def)

lemma pump_call_closeTunnel:
  "inbound t = Some ci \<Longrightarrow>
     pump_call p err t w =
       closeTunnel t (if err \<noteq> EOF then log_Printf (ErrorOccured err) w else w)"
  by (cases p)
     (simp_all add: pump_call_def readFromInbound_def readFromOutbound_def
        writeToInbound_def writeToOutbound_def)


lemma admitted_eq:
  "admitted = \<lparr>id_var = 1,
     realm = \<lparr>bindIF = [], bindPort = ''9000'', dstHost = ''example'', dstPort = ''7'',
              tunnels = [''1'' \<mapsto> tunnel1], joining = None\<rparr>,
     closes = (\<lambda>c. 0),
     logs = [AddedTunnel ''1'' tunnel1, RealmHas [''1'' \<mapsto> tunnel1]],
     proc = Running, joined = None,
     pumps = [(tunnel1, ReadInbound), (tunnel1, WriteOutbound), (tunnel1, ReadOutbound),
              (tunnel1, WriteInbound)],
     cur = RealmListener, map_writes = [(RealmListener, Insert ''1'')]\<rparr>"
proof -
  have "Itoa 1 = ''1''" by code_simp
  then show ?thesis
    by (simp add: admitted_def tunnel1_def world_defs fixture_defs Let_def)
qed


lemma pump_call_effect:
  assumes "inbound t = Some ci"
  shows "tunnels (realm (pump_call p e t w)) = (tunnels (realm w))(tunnel_id t := None)"
    and "is_closed (pump_call p e t w) c = (is_closed w c \<or> c = ci \<or> c = outbound t)"
    and "proc (pump_call p e t w) = proc w"
    and "Suc (closes w ci) \<le> closes (pump_call p e t w) ci"
    and "Suc (closes w (outbound t)) \<le> closes (pump_call p e t w) (outbound t)"
proof -
  let ?w = "if e \<noteq> EOF then log_Printf (ErrorOccured e) w else w"
  have r: "tunnels (realm ?w) = tunnels (realm w)" "proc ?w = proc w"
    "\<And>c. is_closed ?w c = is_closed w c" "closes ?w = closes w"
    by (simp_all add: log_Printf_def is_closed_def)
  note c = closeTunnel_effect [OF assms, where w = ?w]
  show "tunnels (realm (pump_call p e t w)) = (tunnels (realm w))(tunnel_id t := None)"
    using c(1) r by (simp add: pump_call_closeTunnel [OF assms])
  show "is_closed (pump_call p e t w) c = (is_closed w c \<or> c = ci \<or> c = outbound t)"
    using c(2) [where c = c] r by (simp add: pump_call_closeTunnel [OF assms])
  show "proc (pump_call p e t w) = proc w"
    using c(3) r by (simp add: pump_call_closeTunnel [OF assms])
  show "Suc (closes w ci) \<le> closes (pump_call p e t w) ci"
    using c(5) r by (simp add: pump_call_closeTunnel [OF assms])
  show "Suc (closes w (outbound t)) \<le> closes (pump_call p e t w) (outbound t)"
    using c(6) r by (simp add: pump_call_closeTunnel [OF assms])
qed

lemma terminations_effect:
  assumes "inbound t = Some ci"
  shows "tunnels (realm (terminations pes t w)) =
           (if pes = [] then tunnels (realm w) else (tunnels (realm w))(tunnel_id t := None)) \<and>
         (\<forall>c. is_closed (terminations pes t w) c =
                (is_closed w c \<or> pes \<noteq> [] \<and> (c = ci \<or> c = outbound t))) \<and>
         proc (terminations pes t w) = proc w \<and>
         closes w ci + length pes \<le> closes (terminations pes t w) ci \<and>
         closes w (outbound t) + length pes \<le> closes (terminations pes t w) (outbound t)"
proof (induction pes arbitrary: w)
  case Nil
  show ?case by simp
next
  case (Cons pe pes)
  let ?w = "pump_call (fst pe) (snd pe) t w"
  note e = pump_call_effect [OF assms, where p = "fst pe" and e = "snd pe" and w = w]
  note ih = Cons [where w = ?w]
  from ih have "tunnels (realm (terminations pes t ?w)) =
      (if pes = [] then tunnels (realm ?w) else (tunnels (realm ?w))(tunnel_id t := None))"
    by blast
  then have 1: "tunnels (realm (terminations (pe # pes) t w)) = (tunnels (realm w))(tunnel_id t := None)"
    by (cases "pes = []") (simp_all add: e(1))
  have 2: "\<forall>c. is_closed (terminations (pe # pes) t w) c =
             (is_closed w c \<or> c = ci \<or> c = outbound t)"
    using ih e(2) by auto
  have 3: "proc (terminations (pe # pes) t w) = proc w"
    using ih e(3) by simp
  have 4: "closes w ci + length (pe # pes) \<le> closes (terminations (pe # pes) t w) ci"
    using ih e(4) by simp
  have 5: "closes w (outbound t) + length (pe # pes)
             \<le> closes (terminations (pe # pes) t w) (outbound t)"
    using ih e(5) by simp
  from 1 2 3 4 5 show ?case by simp
qed

text \<open>
  Claim C2, as amended. Teardown is idempotent in its effect. For a tunnel around an
  established inbound connection, after the return of any one or more of its pumps, in
  any order and with any errors, the registry is the one before without the tunnel's
  entry and the closed connections are those closed before and the tunnel's two: the
  same as after the first return alone. There is no guard, though: every return calls
  \<open>Close\<close> on both connections again (and deletes and logs again), so each connection has
  received at least as many calls of \<open>Close\<close> as pumps have returned.
\<close>

theorem teardown_idempotent_in_effect:
  "inbound t = Some ci \<and> pes \<noteq> [] \<Longrightarrow>
     tunnels (realm (terminations pes t w)) = (tunnels (realm w))(tunnel_id t := None) \<and>
     (\<forall>c. is_closed (terminations pes t w) c = (is_closed w c \<or> c = ci \<or> c = outbound t)) \<and>
     proc (terminations pes t w) = proc w \<and>
     length pes \<le> close_calls ci (terminations pes t w) \<and>
     length pes \<le> close_calls (outbound t) (terminations pes t w)"
proof -
  assume h: "inbound t = Some ci \<and> pes \<noteq> []"
  then have i: "inbound t = Some ci" and n: "pes \<noteq> []" by simp_all
  from terminations_effect [OF i, where pes = pes and w = w] n show ?thesis
    by (simp add: close_calls_def)
qed

text \<open>Claim C2, the amended statement at the tunnel of the connections 7 and 8, after
  one and after two of its pumps have returned.\<close>

theorem teardown_idempotent_in_effect_witness:
  "registered ''1'' admitted = Some tunnel1 \<and>
   registered ''1'' (terminations [(ReadInbound, EOF)] tunnel1 admitted) = None \<and>
   registered ''1'' (terminations [(ReadInbound, EOF),
      (ReadOutbound, NetError ''use of closed network connection'')] tunnel1 admitted) = None \<and>
   is_closed (terminations [(ReadInbound, EOF)] tunnel1 admitted) 7 \<and>
   is_closed (terminations [(ReadInbound, EOF),
      (ReadOutbound, NetError ''use of closed network connection'')] tunnel1 admitted) 7 \<and>
   is_closed (terminations [(ReadInbound, EOF)] tunnel1 admitted) 8 \<and>
   is_closed (terminations [(ReadInbound, EOF),
      (ReadOutbound, NetError ''use of closed network connection'')] tunnel1 admitted) 8"
proof -
  have i: "inbound tunnel1 = Some 7 \<and> [(ReadInbound, EOF)] \<noteq> []"
    "inbound tunnel1 = Some 7 \<and> [(ReadInbound, EOF),
      (ReadOutbound, NetError ''use of closed network connection'')] \<noteq> []"
    by (simp_all add: tunnel1_def)
  have "registered ''1'' admitted = Some tunnel1"
    by (simp add: admitted_eq registered_def)
  with teardown_idempotent_in_effect [OF i(1), where w = admitted]
       teardown_idempotent_in_effect [OF i(2), where w = admitted]
  show ?thesis by (simp add: registered_def tunnel1_def)
qed

lemma Itoa_1: "Itoa 1 = ''1''"
  by code_simp

lemmas run_simps = world_defs fixture_defs Let_def Itoa_1 tunnel1_def

text \<open>
  Claim C2 as stated (each connection is closed exactly once, the entry is removed
  exactly once, a repeated teardown does nothing) fails when two pumps of a tunnel
  return: each connection receives two calls of \<open>Close\<close>, the map is written by two
  deletes, and the second teardown adds four log lines.
\<close>

theorem teardown_repeats_close:
  "map_option (close_calls 7)
     (run [Accept (Some 7, None), Receive (dial_to 8), Store, PumpCall ''1'' ReadInbound EOF,
           PumpCall ''1'' ReadOutbound (NetError ''use of closed network connection'')] tcpf)
     = Some 2 \<and>
   map_option (close_calls 8)
     (run [Accept (Some 7, None), Receive (dial_to 8), Store, PumpCall ''1'' ReadInbound EOF,
           PumpCall ''1'' ReadOutbound (NetError ''use of closed network connection'')] tcpf)
     = Some 2 \<and>
   map_option map_writes
     (run [Accept (Some 7, None), Receive (dial_to 8), Store, PumpCall ''1'' ReadInbound EOF,
           PumpCall ''1'' ReadOutbound (NetError ''use of closed network connection'')] tcpf)
     = Some [(RealmListener, Insert ''1''), (Pump ''1'' ReadInbound, Delete ''1''),
             (Pump ''1'' ReadOutbound, Delete ''1'')] \<and>
   map_option log_lines
     (run [Accept (Some 7, None), Receive (dial_to 8), Store, PumpCall ''1'' ReadInbound EOF] tcpf)
     = Some 5 \<and>
   map_option log_lines
     (run [Accept (Some 7, None), Receive (dial_to 8), Store, PumpCall ''1'' ReadInbound EOF,
           PumpCall ''1'' ReadOutbound (NetError ''use of closed network connection'')] tcpf)
     = Some 9"
  by (simp add: run_simps)

subsection \<open>The accept loop\<close>

text \<open>
  Claim C10. When \<open>Accept\<close> returns an error with a nil connection, the iteration logs
  the error and still sends the nil connection to the channel \<open>joining\<close>; if the
  destination answers the dial, the listener makes a tunnel whose inbound connection is
  nil, starts its four pumps and stores it in the registry under a new identity.
\<close>

theorem accept_error_admits_nil:
  "proc w = Running \<and> joining (realm w) = None \<and> joined w = None \<and>
   dial (dstHost (realm w) @ '':'' @ dstPort (realm w)) = Inr out \<Longrightarrow>
     joining (realm (accept_iteration (None, Some e) w)) = Some None \<and>
     map_option logs (step (Accept (None, Some e)) w) = Some (logs w @ [ErrorOccured e]) \<and>
     map_option joined (run [Accept (None, Some e), Receive dial] w) =
       Some (Some \<lparr>tunnel_id = Itoa (sint (id_var w + 1)), inbound = None, outbound = out\<rparr>) \<and>
     map_option (registered (Itoa (sint (id_var w + 1))))
         (run [Accept (None, Some e), Receive dial, Store] w) =
       Some (Some \<lparr>tunnel_id = Itoa (sint (id_var w + 1)), inbound = None, outbound = out\<rparr>) \<and>
     map_option pumps (run [Accept (None, Some e), Receive dial, Store] w) =
       Some (pumps w @
         map (Pair \<lparr>tunnel_id = Itoa (sint (id_var w + 1)), inbound = None, outbound = out\<rparr>)
           [ReadInbound, WriteOutbound, ReadOutbound, WriteInbound])"
  by (simp add: world_defs registered_def Let_def)

text \<open>Claim C10 at the first iteration of the process \<open>tcpf 9000 example 7\<close>.\<close>

theorem accept_error_admits_nil_witness:
  "joining (realm (accept_iteration (None, Some (NetError ''too many open files'')) tcpf))
     = Some None \<and>
   map_option (registered ''1'')
     (run [Accept (None, Some (NetError ''too many open files'')), Receive (dial_to 8), Store] tcpf)
     = Some (Some \<lparr>tunnel_id = ''1'', inbound = None, outbound = 8\<rparr>)"
proof -
  have "proc tcpf = Running \<and> joining (realm tcpf) = None \<and> joined tcpf = None \<and>
        dial_to 8 (dstHost (realm tcpf) @ '':'' @ dstPort (realm tcpf)) = Inr 8"
    by (simp add: fixture_defs)
  from accept_error_admits_nil [where w = tcpf and dial = "dial_to 8" and out = 8
         and e = "NetError ''too many open files''", OF this]
  have "joining (realm (accept_iteration (None, Some (NetError ''too many open files'')) tcpf))
          = Some None"
    and "map_option (registered (Itoa (sint (id_var tcpf + 1))))
         (run [Accept (None, Some (NetError ''too many open files'')), Receive (dial_to 8), Store] tcpf) =
       Some (Some \<lparr>tunnel_id = Itoa (sint (id_var tcpf + 1)), inbound = None, outbound = 8\<rparr>)"
    by blast+
  moreover have "Itoa (sint (id_var tcpf + 1)) = ''1''"
    by (simp add: tcpf_def start_def Itoa_1)
  ultimately show ?thesis by simp
qed

text \<open>
  Claim C8, the code at an error of \<open>Accept\<close>. The error is logged and the nil
  connection is admitted. With a destination that answers, the first read of the new
  tunnel's inbound pump is a call on a nil connection, which panics; with a destination
  that refuses, the admission exits. Either way the process ends.
\<close>

theorem accept_error_ends_process:
  "map_option proc
     (run [Accept (None, Some (NetError ''too many open files'')), Receive (dial_to 8),
           PumpCall ''1'' ReadInbound EOF] tcpf) = Some Panicked \<and>
   map_option proc
     (run [Accept (None, Some (NetError ''too many open files'')), Receive dial_refused] tcpf)
     = Some (Exited 1)"
  by (simp add: run_simps)

subsection \<open>The registry\<close>

text \<open>
  Claim C4, the code when a pump returns before the tunnel is stored. The pumps run from
  \<open>tunnel.listen\<close> on, inside \<open>newTCPTunnel\<close>; the store into the map comes after. If the
  inbound reader meets the end of the stream in between, its teardown deletes nothing
  and closes both connections, and then the listener stores the tunnel: the registry
  holds a tunnel whose two connections are closed.
\<close>

theorem registry_keeps_closed_tunnel:
  "map_option (registered ''1'')
     (run [Accept (Some 7, None), Receive (dial_to 8), PumpCall ''1'' ReadInbound EOF, Store] tcpf)
     = Some (Some tunnel1) \<and>
   map_option (close_calls 7)
     (run [Accept (Some 7, None), Receive (dial_to 8), PumpCall ''1'' ReadInbound EOF, Store] tcpf)
     = Some 1 \<and>
   map_option (close_calls 8)
     (run [Accept (Some 7, None), Receive (dial_to 8), PumpCall ''1'' ReadInbound EOF, Store] tcpf)
     = Some 1"
  by (simp add: run_simps)

text \<open>
  Claim C9, the code at one admission and one teardown. The insertion is executed by
  the realm's listener goroutine and the deletion by the pump goroutine that returned;
  the two writes are not ordered, either may come first.
\<close>

theorem registry_written_by_several_goroutines:
  "map_option map_writes
     (run [Accept (Some 7, None), Receive (dial_to 8), Store, PumpCall ''1'' ReadInbound EOF] tcpf)
     = Some [(RealmListener, Insert ''1''), (Pump ''1'' ReadInbound, Delete ''1'')] \<and>
   map_option map_writes
     (run [Accept (Some 7, None), Receive (dial_to 8), PumpCall ''1'' ReadInbound EOF, Store] tcpf)
     = Some [(Pump ''1'' ReadInbound, Delete ''1''), (RealmListener, Insert ''1'')]"
  by (simp add: run_simps)

text \<open>Nothing but the allocation of an identity writes the counter, and only the
  listener goroutine allocates: the admissions are served one at a time.\<close>

lemma step_id_var:
  "step ev w = Some w' \<Longrightarrow>
     id_var w' = id_var w \<or> (\<exists>dial. ev = Receive dial) \<and> id_var w' = id_var w + 1"
  by (cases ev)
     (auto simp: world_defs Let_def split: if_splits option.splits sum.splits pump.splits)

end
